theory Spec2Isabelle
  imports Complex_Main
begin

section \<open>Mixture-model notebook: values and numerical primitives\<close>

text \<open>
  The notebook computes with double-precision arrays. The embedding works over exact
  real arithmetic: an array is a \<open>real list\<close>, and a floating-point operation whose
  result numpy reports as \<open>inf\<close> or \<open>nan\<close> (the logarithm of a non-positive number, a
  division by zero) is the error \<open>FloatingPointError\<close>, since it has no real value.
  \<open>ValueError\<close> is Python's error for a failed unpacking and numpy's for operands whose
  shapes cannot be broadcast together; \<open>IndexError\<close> is an index out of range.
\<close>

datatype error = ValueError | IndexError | FloatingPointError

text \<open>A Python float that may be the value \<open>-np.inf\<close>.\<close>

datatype xreal = NegInf | Fin real

fun isfinite :: "xreal \<Rightarrow> bool" where
  "isfinite NegInf = False"
| "isfinite (Fin _) = True"

fun xadd :: "xreal \<Rightarrow> xreal \<Rightarrow> xreal" where
  "xadd (Fin a) (Fin b) = Fin (a + b)"
| "xadd _ _ = NegInf"

definition and_then :: "error + 'a \<Rightarrow> ('a \<Rightarrow> error + 'b) \<Rightarrow> error + 'b" where
  "and_then r f = (case r of Inl e \<Rightarrow> Inl e | Inr v \<Rightarrow> f v)"

text \<open>An array operation fails as soon as one of its elements does.\<close>

fun sequence :: "(error + 'a) list \<Rightarrow> error + 'a list" where
  "sequence [] = Inr []"
| "sequence (r # rs) = and_then r (\<lambda>v. and_then (sequence rs) (\<lambda>vs. Inr (v # vs)))"

text \<open>
  Element-wise binary operation on two one-dimensional arrays under numpy's
  broadcasting: equal lengths pair up, an array of length one is stretched, anything
  else is a \<open>ValueError\<close>.
\<close>

definition broadcast2 ::
  "(real \<Rightarrow> real \<Rightarrow> error + real) \<Rightarrow> real list \<Rightarrow> real list \<Rightarrow> error + real list" where
  "broadcast2 f as bs =
     (if length as = length bs then sequence (map2 f as bs)
      else if length as = 1 then sequence (map (f (hd as)) bs)
      else if length bs = 1 then sequence (map (\<lambda>a. f a (hd bs)) as)
      else Inl ValueError)"

definition log_elem :: "real \<Rightarrow> error + real" where
  "log_elem a = (if 0 < a then Inr (ln a) else Inl FloatingPointError)"

definition divide_elem :: "real \<Rightarrow> real \<Rightarrow> error + real" where
  "divide_elem a b = (if b = 0 then Inl FloatingPointError else Inr (a / b))"

definition np_log :: "real list \<Rightarrow> error + real list" where
  "np_log as = sequence (map log_elem as)"

definition np_add :: "real list \<Rightarrow> real list \<Rightarrow> error + real list" where
  "np_add = broadcast2 (\<lambda>a b. Inr (a + b))"

definition np_subtract :: "real list \<Rightarrow> real list \<Rightarrow> error + real list" where
  "np_subtract = broadcast2 (\<lambda>a b. Inr (a - b))"

definition np_divide :: "real list \<Rightarrow> real list \<Rightarrow> error + real list" where
  "np_divide = broadcast2 divide_elem"

text \<open>
  \<open>np.logaddexp(x1, x2)\<close> is numpy's \<open>log(exp(x1) + exp(x2))\<close>, evaluated without
  exponentiating a large argument: the larger operand is taken out of the logarithm.
\<close>

definition logaddexp :: "real \<Rightarrow> real \<Rightarrow> real" where
  "logaddexp a b =
     (if a = b then a + ln 2
      else if 0 < a - b then a + ln (1 + exp (- (a - b)))
      else b + ln (1 + exp (a - b)))"

definition np_logaddexp :: "real list \<Rightarrow> real list \<Rightarrow> error + real list" where
  "np_logaddexp = broadcast2 (\<lambda>a b. Inr (logaddexp a b))"

definition zeros :: "nat \<Rightarrow> real list" where
  "zeros n = replicate n 0"

definition zeros_like :: "real list \<Rightarrow> real list" where
  "zeros_like as = zeros (length as)"

definition ones_like :: "real list \<Rightarrow> real list" where
  "ones_like as = replicate (length as) 1"

section \<open>The data and the probabilistic model\<close>

text \<open>
  The module-level arrays \<open>x\<close>, \<open>y\<close> and \<open>yerr\<close> that the likelihood functions read.
  The notebook draws \<open>x\<close> and \<open>y\<close> from a seeded random generator, so they are
  parameters here; \<open>yerr\<close> is built as \<open>0.2 * np.ones_like(x)\<close>.
\<close>

record data =
  x :: "real list"
  y :: "real list"
  yerr :: "real list"

definition mk_yerr :: "real list \<Rightarrow> real list" where
  "mk_yerr xs = map (\<lambda>one. 0.2 * one) (ones_like xs)"

definition wf_data :: "data \<Rightarrow> bool" where
  "wf_data d \<longleftrightarrow>
     length (y d) = length (x d) \<and> length (yerr d) = length (x d) \<and>
     list_all (\<lambda>s. 0 < s) (yerr d)"

definition bounds :: "(real \<times> real) list" where
  "bounds = [(0.1, 1.9), (-0.9, 0.9), (0, 1), (-2.4, 2.4), (-7.2, 5.2)]"

definition lnprior :: "real list \<Rightarrow> xreal" where
  "lnprior p =
     (if \<not> list_all (\<lambda>(v, b). fst b < v \<and> v < snd b) (zip p bounds) then NegInf
      else Fin 0)"

fun lnlike_fg :: "data \<Rightarrow> real list \<Rightarrow> error + real list" where
  "lnlike_fg d [m, b, _, M, lnV] =
     (let model = map (\<lambda>v. m * v + b) (x d) in
      and_then (np_subtract model (y d)) (\<lambda>resid.
      and_then (np_divide resid (yerr d)) (\<lambda>scaled.
      and_then (np_log (yerr d)) (\<lambda>logs.
      and_then (np_add (map (\<lambda>v. v ^ 2) scaled) (map (\<lambda>v. 2 * v) logs)) (\<lambda>total.
      Inr (map (\<lambda>v. - 0.5 * v) total))))))"
| "lnlike_fg d _ = Inl ValueError"

fun lnlike_bg :: "data \<Rightarrow> real list \<Rightarrow> error + real list" where
  "lnlike_bg d [_, _, Q, M, lnV] =
     (let var = map (\<lambda>s. exp lnV + s ^ 2) (yerr d) in
      and_then (np_divide (map (\<lambda>v. (M - v) ^ 2) (y d)) var) (\<lambda>quot.
      and_then (np_log var) (\<lambda>logvar.
      and_then (np_add quot logvar) (\<lambda>total.
      Inr (map (\<lambda>v. - 0.5 * v) total)))))"
| "lnlike_bg d _ = Inl ValueError"

fun lnprob :: "data \<Rightarrow> real list \<Rightarrow> error + xreal \<times> real list \<times> real list" where
  "lnprob d [m, b, Q, M, lnV] =
     (let p = [m, b, Q, M, lnV]; lp = lnprior p in
      if \<not> isfinite lp then Inr (NegInf, zeros_like (y d), zeros_like (y d))
      else
        and_then (lnlike_fg d p) (\<lambda>ll_fg.
        and_then (log_elem Q) (\<lambda>logQ.
        let arg1 = map (\<lambda>v. v + logQ) ll_fg in
        and_then (lnlike_bg d p) (\<lambda>ll_bg.
        and_then (log_elem (1.0 - Q)) (\<lambda>log1mQ.
        let arg2 = map (\<lambda>v. v + log1mQ) ll_bg in
        and_then (np_logaddexp arg1 arg2) (\<lambda>combined.
        let ll = sum_list combined in
        Inr (xadd lp (Fin ll), arg1, arg2)))))))"
| "lnprob d _ = Inl ValueError"

section \<open>The posterior summarizer\<close>

text \<open>
  What the summarizer cell reads of the sampler after the production run: the shape of
  \<open>sampler.chain\<close>, which is (walkers, steps, dimensions), and \<open>sampler.blobs\<close>, a list
  with one entry per step holding one pair of arrays per walker.
\<close>

record sampler =
  chain_shape :: "nat \<times> nat \<times> nat"
  blobs :: "(real list \<times> real list) list list"

definition getitem :: "'a list \<Rightarrow> nat \<Rightarrow> error + 'a" where
  "getitem as i = (if i < length as then Inr (as ! i) else Inl IndexError)"

text \<open>
  \<open>acc += v\<close> on arrays: the sum is stored in \<open>acc\<close>, so \<open>v\<close> must have the length of
  \<open>acc\<close> or length one.
\<close>

definition iadd :: "real list \<Rightarrow> real list \<Rightarrow> error + real list" where
  "iadd acc v =
     (if length v = length acc then Inr (map2 (+) acc v)
      else if length v = 1 then Inr (map (\<lambda>a. a + hd v) acc)
      else Inl ValueError)"

fun for_each :: "(nat \<Rightarrow> 's \<Rightarrow> error + 's) \<Rightarrow> nat list \<Rightarrow> 's \<Rightarrow> error + 's" where
  "for_each body [] s = Inr s"
| "for_each body (i # js) s = and_then (body i s) (for_each body js)"

text \<open>
  The term one retained sample adds to the accumulator:
  \<open>np.exp(ll_fg - np.logaddexp(ll_fg, ll_bg))\<close>.
\<close>

definition membership :: "real list \<Rightarrow> real list \<Rightarrow> error + real list" where
  "membership ll_fg ll_bg =
     and_then (np_logaddexp ll_fg ll_bg) (\<lambda>lse.
     and_then (np_subtract ll_fg lse) (\<lambda>diff.
     Inr (map exp diff)))"

text \<open>The body of the inner loop, on the pair of the globals \<open>norm\<close> and \<open>post_prob\<close>.\<close>

definition accumulate ::
  "sampler \<Rightarrow> nat \<Rightarrow> nat \<Rightarrow> real \<times> real list \<Rightarrow> error + real \<times> real list" where
  "accumulate S i j = (\<lambda>(nrm, acc).
     and_then (getitem (blobs S) i) (\<lambda>row.
     and_then (getitem row j) (\<lambda>(ll_fg, ll_bg).
     and_then (membership ll_fg ll_bg) (\<lambda>term.
     and_then (iadd acc term) (\<lambda>acc'.
     Inr (nrm + 1, acc'))))))"

text \<open>
  The summarizer cell. It assigns the globals \<open>norm\<close> and \<open>post_prob\<close>; \<open>old\<close> is
  whatever they held before the cell ran, and the result is what they hold after.
\<close>

definition post_prob ::
  "data \<Rightarrow> sampler \<Rightarrow> real \<times> real list \<Rightarrow> error + real \<times> real list" where
  "post_prob d S old =
     (let start = (0, zeros (length (x d)));
          nwalkers = fst (chain_shape S);
          nsteps = fst (snd (chain_shape S)) in
      and_then (for_each (\<lambda>i. for_each (accumulate S i) [0..<nwalkers]) [0..<nsteps] start)
        (\<lambda>(nrm, acc).
      and_then (sequence (map (\<lambda>v. divide_elem v nrm) acc)) (\<lambda>probs.
      Inr (nrm, probs))))"

text \<open>
  The sampler's guarantee on what it stored: one row of blobs per production step, one
  blob per walker in each row, and each blob a pair of arrays with one entry per
  observation.
\<close>

definition wf_sampler :: "data \<Rightarrow> sampler \<Rightarrow> bool" where
  "wf_sampler d S \<longleftrightarrow>
     length (blobs S) = fst (snd (chain_shape S)) \<and>
     list_all (\<lambda>row. length row = fst (chain_shape S) \<and>
        list_all (\<lambda>(ll_fg, ll_bg). length ll_fg = length (x d) \<and> length ll_bg = length (x d)) row)
       (blobs S)"

text \<open>
  Entry \<open>k\<close> of the term that one stored blob contributes, written out on its own
  for the statements about the loops.
\<close>

definition membership_term :: "real list \<times> real list \<Rightarrow> nat \<Rightarrow> real" where
  "membership_term blob k = exp (fst blob ! k - logaddexp (fst blob ! k) (snd blob ! k))"

section \<open>Concrete inputs\<close>

text \<open>
  A two-point data set built the way the notebook builds its own (\<open>yerr\<close> from \<open>x\<close>),
  used to run the model at a concrete input.
\<close>

definition example_data :: data where
  "example_data = \<lparr>x = [- 1, 1], y = [- 1, 0], yerr = mk_yerr [- 1, 1]\<rparr>"

text \<open>
  What a run with two walkers and one production step could have stored for that data
  set: the blob of a rejected proposal (two arrays of zeros) and one other blob.
\<close>

definition example_sampler :: sampler where
  "example_sampler =
     \<lparr>chain_shape = (2, 1, 5), blobs = [[([0, 0], [0, 0]), ([ln 3, 0], [0, 0])]]\<rparr>"

section \<open>Array primitives on well-shaped operands\<close>

lemma and_then_Inr [simp]: "and_then (Inr v) f = f v"
  by (simp add: and_then_def)

lemma and_then_Inl [simp]: "and_then (Inl e) f = Inl e"
  by (simp add: and_then_def)

lemma sequence_map_Inr:
  "(\<And>a. a \<in> set as \<Longrightarrow> f a = Inr (g a)) \<Longrightarrow> sequence (map f as) = Inr (map g as)"
  by (induction as) simp_all

lemma broadcast2_same_length:
  assumes "length as = length bs"
    and "\<And>a b. (a, b) \<in> set (zip as bs) \<Longrightarrow> f a b = Inr (g a b)"
  shows "broadcast2 f as bs = Inr (map2 g as bs)"
proof -
  have "sequence (map (\<lambda>(a, b). f a b) (zip as bs)) = Inr (map (\<lambda>(a, b). g a b) (zip as bs))"
    by (rule sequence_map_Inr) (use assms(2) in auto)
  with assms(1) show ?thesis
    by (simp add: broadcast2_def)
qed

lemma np_add_same_length:
  "length as = length bs \<Longrightarrow> np_add as bs = Inr (map2 (+) as bs)"
  unfolding np_add_def by (rule broadcast2_same_length) simp_all

lemma np_subtract_same_length:
  "length as = length bs \<Longrightarrow> np_subtract as bs = Inr (map2 (-) as bs)"
  unfolding np_subtract_def by (rule broadcast2_same_length) simp_all

lemma np_logaddexp_same_length:
  "length as = length bs \<Longrightarrow> np_logaddexp as bs = Inr (map2 logaddexp as bs)"
  unfolding np_logaddexp_def by (rule broadcast2_same_length) simp_all

lemma np_divide_same_length:
  assumes "length as = length bs" and "\<And>b. b \<in> set bs \<Longrightarrow> b \<noteq> 0"
  shows "np_divide as bs = Inr (map2 (/) as bs)"
  unfolding np_divide_def
proof (rule broadcast2_same_length)
  fix a b assume "(a, b) \<in> set (zip as bs)"
  then have "b \<in> set bs" by (rule set_zip_rightD)
  then show "divide_elem a b = Inr (a / b)"
    using assms(2) by (simp add: divide_elem_def)
qed (rule assms(1))

lemma np_log_positive:
  "(\<And>a. a \<in> set as \<Longrightarrow> 0 < a) \<Longrightarrow> np_log as = Inr (map ln as)"
  unfolding np_log_def by (rule sequence_map_Inr) (simp add: log_elem_def)

section \<open>The likelihood evaluators\<close>

declare lnlike_fg.simps [simp del] lnlike_bg.simps [simp del] lnprob.simps [simp del]

lemma lnlike_fg_zip:
  assumes "wf_data d"
  shows "lnlike_fg d [m, b, Q, M, lnV] =
    Inr (map (\<lambda>v. - 0.5 * v)
      (map2 (+)
        (map (\<lambda>v. v ^ 2) (map2 (/) (map2 (-) (map (\<lambda>v. m * v + b) (x d)) (y d)) (yerr d)))
        (map (\<lambda>v. 2 * v) (map ln (yerr d)))))"
proof -
  from assms have len: "length (y d) = length (x d)" "length (yerr d) = length (x d)"
    and pos: "\<And>s. s \<in> set (yerr d) \<Longrightarrow> 0 < s"
    by (auto simp: wf_data_def list_all_iff)
  let ?model = "map (\<lambda>v. m * v + b) (x d)"
  let ?resid = "map2 (-) ?model (y d)"
  let ?scaled = "map2 (/) ?resid (yerr d)"
  have 1: "np_subtract ?model (y d) = Inr ?resid"
    by (rule np_subtract_same_length) (simp add: len)
  have 2: "np_divide ?resid (yerr d) = Inr ?scaled"
  proof (rule np_divide_same_length)
    show "length ?resid = length (yerr d)" by (simp add: len)
    show "s \<noteq> 0" if "s \<in> set (yerr d)" for s using pos [OF that] by simp
  qed
  have 3: "np_log (yerr d) = Inr (map ln (yerr d))"
    by (rule np_log_positive) (rule pos)
  have 4: "np_add (map (\<lambda>v. v ^ 2) ?scaled) (map (\<lambda>v. 2 * v) (map ln (yerr d))) =
      Inr (map2 (+) (map (\<lambda>v. v ^ 2) ?scaled) (map (\<lambda>v. 2 * v) (map ln (yerr d))))"
    by (rule np_add_same_length) (simp add: len)
  show ?thesis
    by (simp only: lnlike_fg.simps Let_def 1 2 3 4 and_then_Inr)
qed

lemma lnlike_bg_zip:
  assumes "length (yerr d) = length (y d)"
  shows "lnlike_bg d [m, b, Q, M, lnV] =
    Inr (map (\<lambda>v. - 0.5 * v)
      (map2 (+)
        (map2 (/) (map (\<lambda>v. (M - v) ^ 2) (y d)) (map (\<lambda>s. exp lnV + s ^ 2) (yerr d)))
        (map ln (map (\<lambda>s. exp lnV + s ^ 2) (yerr d)))))"
proof -
  let ?var = "map (\<lambda>s. exp lnV + s ^ 2) (yerr d)"
  let ?sq = "map (\<lambda>v. (M - v) ^ 2) (y d)"
  let ?quot = "map2 (/) ?sq ?var"
  have pos: "0 < v" if "v \<in> set ?var" for v
  proof -
    from that obtain s where "v = exp lnV + s ^ 2" by auto
    moreover have "0 < exp lnV + s ^ 2" by (simp add: add_pos_nonneg)
    ultimately show ?thesis by simp
  qed
  have 1: "np_divide ?sq ?var = Inr ?quot"
  proof (rule np_divide_same_length)
    show "length ?sq = length ?var" by (simp add: assms)
    show "v \<noteq> 0" if "v \<in> set ?var" for v using pos [OF that] by simp
  qed
  have 2: "np_log ?var = Inr (map ln ?var)"
    by (rule np_log_positive) (rule pos)
  have 3: "np_add ?quot (map ln ?var) = Inr (map2 (+) ?quot (map ln ?var))"
    by (rule np_add_same_length) (simp add: assms)
  show ?thesis
    by (simp only: lnlike_bg.simps Let_def 1 2 3 and_then_Inr)
qed

lemma lnlike_fg_length:
  "wf_data d \<Longrightarrow> lnlike_fg d [m, b, Q, M, lnV] = Inr v \<Longrightarrow> length v = length (x d)"
  by (simp add: lnlike_fg_zip) (auto simp: wf_data_def)

lemma lnlike_bg_length:
  "wf_data d \<Longrightarrow> lnlike_bg d [m, b, Q, M, lnV] = Inr v \<Longrightarrow> length v = length (x d)"
  by (simp add: lnlike_bg_zip wf_data_def) auto

lemma wf_example_data: "wf_data example_data"
  by (simp add: wf_data_def example_data_def mk_yerr_def ones_like_def)

lemma example_data_simps:
  "x example_data = [- 1, 1]" "y example_data = [- 1, 0]" "yerr example_data = [1 / 5, 1 / 5]"
  by (simp_all add: example_data_def mk_yerr_def ones_like_def)

text \<open>
  C7. On data whose three arrays have one entry per observation and whose uncertainties
  are positive, the foreground evaluator returns an array with one entry per observation,
  the \<open>k\<close>-th being \<open>-1/2 (((m x\<^sub>k + b - y\<^sub>k) / \<sigma>\<^sub>k)\<^sup>2 + 2 ln \<sigma>\<^sub>k)\<close>, whatever the parameter vector.
\<close>

theorem lnlike_fg_entries:
  assumes "wf_data d"
  shows "\<exists>v. lnlike_fg d [m, b, Q, M, lnV] = Inr v \<and> length v = length (x d) \<and>
    (\<forall>k < length (x d). v ! k =
       - (1 / 2) * (((m * x d ! k + b - y d ! k) / yerr d ! k) ^ 2 + 2 * ln (yerr d ! k)))"
proof -
  from assms have len: "length (y d) = length (x d)" "length (yerr d) = length (x d)"
    by (auto simp: wf_data_def)
  show ?thesis
    by (simp add: lnlike_fg_zip [OF assms] len)
qed

theorem lnlike_fg_entries_witness:
  "wf_data example_data \<and>
   (\<exists>v. lnlike_fg example_data [1, 0, 0.7, 0, 0] = Inr v \<and> length v = 2 \<and>
        v ! 0 = ln 5 \<and> v ! 1 = ln 5 - 25 / 2)"
proof -
  from lnlike_fg_entries [OF wf_example_data, of 1 0 "0.7" 0 0]
  obtain v where v: "lnlike_fg example_data [1, 0, 0.7, 0, 0] = Inr v" "length v = 2"
    and nth: "\<And>k. k < 2 \<Longrightarrow> v ! k =
       - (1 / 2) * (((1 * x example_data ! k + 0 - y example_data ! k) / yerr example_data ! k) ^ 2
          + 2 * ln (yerr example_data ! k))"
    by (auto simp: example_data_simps)
  have "v ! 0 = ln 5" using nth [of 0] by (simp add: example_data_simps ln_div)
  moreover have "v ! 1 = ln 5 - 25 / 2"
    using nth [of 1] by (simp add: example_data_simps ln_div field_simps)
  ultimately show ?thesis using v wf_example_data by blast
qed

text \<open>
  C8. The background evaluator returns an array with one entry per observation, the
  \<open>k\<close>-th being \<open>-1/2 ((M - y\<^sub>k)\<^sup>2 / var\<^sub>k + ln var\<^sub>k)\<close> with \<open>var\<^sub>k = exp lnV + \<sigma>\<^sub>k\<^sup>2\<close>, whatever
  the parameter vector; the variance is positive for every real \<open>\<sigma>\<^sub>k\<close>, so only the
  lengths of \<open>y\<close> and \<open>yerr\<close> have to agree.
\<close>

theorem lnlike_bg_entries:
  assumes "length (yerr d) = length (y d)"
  shows "\<exists>v. lnlike_bg d [m, b, Q, M, lnV] = Inr v \<and> length v = length (y d) \<and>
    (\<forall>k < length (y d). v ! k =
       - (1 / 2) * ((M - y d ! k) ^ 2 / (exp lnV + (yerr d ! k) ^ 2)
                    + ln (exp lnV + (yerr d ! k) ^ 2)))"
  by (simp add: lnlike_bg_zip [OF assms] assms)

theorem lnlike_bg_entries_witness:
  "length (yerr example_data) = length (y example_data) \<and>
   (\<exists>v. lnlike_bg example_data [1, 0, 0.7, 0, 0] = Inr v \<and> length v = 2 \<and>
        v ! 0 = - (1 / 2) * (25 / 26 + ln (26 / 25)) \<and> v ! 1 = - (1 / 2) * ln (26 / 25))"
proof -
  have len: "length (yerr example_data) = length (y example_data)"
    by (simp add: example_data_simps)
  from lnlike_bg_entries [OF len, of 1 0 "0.7" 0 0]
  obtain v where v: "lnlike_bg example_data [1, 0, 0.7, 0, 0] = Inr v" "length v = 2"
    and nth: "\<And>k. k < 2 \<Longrightarrow> v ! k =
       - (1 / 2) * ((0 - y example_data ! k) ^ 2 / (exp 0 + (yerr example_data ! k) ^ 2)
                    + ln (exp 0 + (yerr example_data ! k) ^ 2))"
    by (auto simp: example_data_simps)
  have "v ! 0 = - (1 / 2) * (25 / 26 + ln (26 / 25))"
    using nth [of 0] by (simp add: example_data_simps power2_eq_square)
  moreover have "v ! 1 = - (1 / 2) * ln (26 / 25)"
    using nth [of 1] by (simp add: example_data_simps power2_eq_square)
  ultimately show ?thesis using v len by blast
qed

section \<open>The prior and the full log-probability\<close>

lemma logaddexp_eq: "logaddexp a b = ln (exp a + exp b)"
proof -
  have split: "ln (exp u + exp v) = u + ln (1 + exp (v - u))" for u v :: real
  proof -
    have "exp u + exp v = exp u * (1 + exp (v - u))"
      by (simp add: distrib_left flip: exp_add)
    then have "ln (exp u + exp v) = ln (exp u) + ln (1 + exp (v - u))"
      by (simp add: ln_mult_pos add_pos_pos)
    then show ?thesis by simp
  qed
  show ?thesis
  proof (cases "a = b")
    case True
    then show ?thesis using split [of a a] by (simp add: logaddexp_def)
  next
    case False
    show ?thesis
    proof (cases "0 < a - b")
      case True
      with False show ?thesis using split [of a b] by (simp add: logaddexp_def)
    next
      case no: False
      with False show ?thesis using split [of b a] by (simp add: logaddexp_def add.commute)
    qed
  qed
qed

lemma lnprior_inside:
  "lnprior [m, b, Q, M, lnV] = Fin 0 \<longleftrightarrow>
     0.1 < m \<and> m < 1.9 \<and> - 0.9 < b \<and> b < 0.9 \<and> 0 < Q \<and> Q < 1 \<and>
     - 2.4 < M \<and> M < 2.4 \<and> - 7.2 < lnV \<and> lnV < 5.2"
  by (simp add: lnprior_def bounds_def)

lemma lnprior_outside:
  "lnprior [m, b, Q, M, lnV] = NegInf \<longleftrightarrow>
     \<not> (0.1 < m \<and> m < 1.9 \<and> - 0.9 < b \<and> b < 0.9 \<and> 0 < Q \<and> Q < 1 \<and>
        - 2.4 < M \<and> M < 2.4 \<and> - 7.2 < lnV \<and> lnV < 5.2)"
  by (simp add: lnprior_def bounds_def)

lemma lnprior_cases: "lnprior p = NegInf \<or> lnprior p = Fin 0"
  by (simp add: lnprior_def)

lemma lnprob_rejected:
  "lnprior [m, b, Q, M, lnV] = NegInf \<Longrightarrow>
   lnprob d [m, b, Q, M, lnV] = Inr (NegInf, replicate (length (y d)) 0, replicate (length (y d)) 0)"
  by (simp add: lnprob.simps zeros_like_def zeros_def)

lemma lnprob_accepted:
  assumes "lnprior [m, b, Q, M, lnV] = Fin 0"
    and "lnlike_fg d [m, b, Q, M, lnV] = Inr ll_fg"
    and "lnlike_bg d [m, b, Q, M, lnV] = Inr ll_bg"
    and "length ll_fg = length ll_bg"
  shows "lnprob d [m, b, Q, M, lnV] =
    Inr (Fin (0 + sum_list (map2 logaddexp (map (\<lambda>v. v + ln Q) ll_fg)
                                         (map (\<lambda>v. v + ln (1 - Q)) ll_bg))),
         map (\<lambda>v. v + ln Q) ll_fg, map (\<lambda>v. v + ln (1 - Q)) ll_bg)"
proof -
  from assms(1) have Q: "0 < Q" "Q < 1"
    by (simp_all add: lnprior_inside)
  then have logs: "log_elem Q = Inr (ln Q)" "log_elem (1 - Q) = Inr (ln (1 - Q))"
    by (simp_all add: log_elem_def)
  have lse: "np_logaddexp (map (\<lambda>v. v + ln Q) ll_fg) (map (\<lambda>v. v + ln (1 - Q)) ll_bg) =
      Inr (map2 logaddexp (map (\<lambda>v. v + ln Q) ll_fg) (map (\<lambda>v. v + ln (1 - Q)) ll_bg))"
    by (rule np_logaddexp_same_length) (simp add: assms(4))
  show ?thesis
    by (simp add: lnprob.simps assms(1,2,3) logs lse Let_def)
qed

lemma lnprob_runs:
  assumes "wf_data d" and "lnprior [m, b, Q, M, lnV] = Fin 0"
  obtains ll_fg ll_bg where
    "lnlike_fg d [m, b, Q, M, lnV] = Inr ll_fg" "length ll_fg = length (x d)"
    "lnlike_bg d [m, b, Q, M, lnV] = Inr ll_bg" "length ll_bg = length (x d)"
    "lnprob d [m, b, Q, M, lnV] =
      Inr (Fin (0 + sum_list (map2 logaddexp (map (\<lambda>v. v + ln Q) ll_fg)
                                           (map (\<lambda>v. v + ln (1 - Q)) ll_bg))),
           map (\<lambda>v. v + ln Q) ll_fg, map (\<lambda>v. v + ln (1 - Q)) ll_bg)"
proof -
  from assms(1) have len: "length (yerr d) = length (y d)"
    by (simp add: wf_data_def)
  obtain ll_fg where fg: "lnlike_fg d [m, b, Q, M, lnV] = Inr ll_fg"
    using lnlike_fg_zip [OF assms(1)] by blast
  obtain ll_bg where bg: "lnlike_bg d [m, b, Q, M, lnV] = Inr ll_bg"
    using lnlike_bg_zip [OF len] by blast
  have lfg: "length ll_fg = length (x d)"
    using assms(1) fg by (rule lnlike_fg_length)
  have lbg: "length ll_bg = length (x d)"
    using assms(1) bg by (rule lnlike_bg_length)
  from lnprob_accepted [OF assms(2) fg bg] lfg lbg fg bg that show thesis
    by simp
qed

lemma sum_list_map2_nth:
  fixes f :: "real \<Rightarrow> real \<Rightarrow> real"
  assumes "length as = n" "length bs = n"
  shows "sum_list (map2 f as bs) = (\<Sum>k<n. f (as ! k) (bs ! k))"
proof -
  have "sum_list (map2 f as bs) = (\<Sum>k = 0..<length (map2 f as bs). map2 f as bs ! k)"
    by (rule sum_list_sum_nth)
  also have "\<dots> = (\<Sum>k = 0..<n. f (as ! k) (bs ! k))"
    by (rule sum.cong) (simp_all add: assms)
  finally show ?thesis by (simp add: atLeast0LessThan)
qed

lemma bounds_example:
  "(0.1 :: real) < 1" "(1 :: real) < 1.9" "- 0.9 < (0 :: real)" "(0 :: real) < 0.9"
  "(0 :: real) < 0.7" "(0.7 :: real) < 1" "- 2.4 < (0 :: real)" "(0 :: real) < 2.4"
  "- 7.2 < (0 :: real)" "(0 :: real) < 5.2"
  by simp_all

lemma lnlike_fg_example:
  "lnlike_fg example_data [1, 0, 0.7, 0, 0] = Inr [ln 5, ln 5 - 25 / 2]"
  by (simp add: lnlike_fg_zip wf_example_data example_data_simps ln_div field_simps)

lemma lnlike_bg_example:
  "lnlike_bg example_data [1, 0, 0.7, 0, 0] =
     Inr [- (1 / 2) * (25 / 26 + ln (26 / 25)), - (1 / 2) * ln (26 / 25)]"
  by (simp add: lnlike_bg_zip example_data_simps power2_eq_square)

text \<open>
  C1. For a parameter vector with every component strictly inside its bound, on data with
  one entry per observation and positive uncertainties, the log-prior is 0 and \<open>lnprob\<close>
  returns: first, the log-prior plus the sum over the observations of
  \<open>logaddexp (ll_fg\<^sub>k + ln Q) (ll_bg\<^sub>k + ln (1 - Q))\<close>; second and third, the arrays
  \<open>ll_fg + ln Q\<close> and \<open>ll_bg + ln (1 - Q)\<close>, where \<open>ll_fg\<close> and \<open>ll_bg\<close> are what the two
  likelihood evaluators return.
\<close>

theorem lnprob_inside_bounds:
  assumes "wf_data d"
    and "0.1 < m" "m < 1.9" "- 0.9 < b" "b < 0.9" "0 < Q" "Q < 1"
    and "- 2.4 < M" "M < 2.4" "- 7.2 < lnV" "lnV < 5.2"
  shows "\<exists>ll_fg ll_bg.
    lnlike_fg d [m, b, Q, M, lnV] = Inr ll_fg \<and> length ll_fg = length (x d) \<and>
    lnlike_bg d [m, b, Q, M, lnV] = Inr ll_bg \<and> length ll_bg = length (x d) \<and>
    lnprior [m, b, Q, M, lnV] = Fin 0 \<and>
    lnprob d [m, b, Q, M, lnV] =
      Inr (Fin (0 + (\<Sum>k < length (x d). logaddexp (ll_fg ! k + ln Q) (ll_bg ! k + ln (1 - Q)))),
           map (\<lambda>v. v + ln Q) ll_fg, map (\<lambda>v. v + ln (1 - Q)) ll_bg)"
proof -
  have prior: "lnprior [m, b, Q, M, lnV] = Fin 0"
    using assms(2-) by (simp add: lnprior_inside)
  from assms(1) prior obtain ll_fg ll_bg where
    run: "lnlike_fg d [m, b, Q, M, lnV] = Inr ll_fg" "length ll_fg = length (x d)"
      "lnlike_bg d [m, b, Q, M, lnV] = Inr ll_bg" "length ll_bg = length (x d)"
    and prob: "lnprob d [m, b, Q, M, lnV] =
      Inr (Fin (0 + sum_list (map2 logaddexp (map (\<lambda>v. v + ln Q) ll_fg)
                                           (map (\<lambda>v. v + ln (1 - Q)) ll_bg))),
           map (\<lambda>v. v + ln Q) ll_fg, map (\<lambda>v. v + ln (1 - Q)) ll_bg)"
    by (rule lnprob_runs)
  have "sum_list (map2 logaddexp (map (\<lambda>v. v + ln Q) ll_fg) (map (\<lambda>v. v + ln (1 - Q)) ll_bg)) =
      (\<Sum>k < length (x d). logaddexp (ll_fg ! k + ln Q) (ll_bg ! k + ln (1 - Q)))"
    by (simp add: sum_list_map2_nth [where n = "length (x d)"] run)
  with run prob prior show ?thesis
    by simp
qed

theorem lnprob_inside_bounds_witness:
  "wf_data example_data \<and> (0.1 :: real) < 1 \<and> (1 :: real) < 1.9 \<and>
   - 0.9 < (0 :: real) \<and> (0 :: real) < 0.9 \<and> (0 :: real) < 0.7 \<and> (0.7 :: real) < 1 \<and>
   - 2.4 < (0 :: real) \<and> (0 :: real) < 2.4 \<and> - 7.2 < (0 :: real) \<and> (0 :: real) < 5.2 \<and>
   lnprob example_data [1, 0, 0.7, 0, 0] =
     Inr (Fin (logaddexp (ln 5 + ln 0.7) (- (1 / 2) * (25 / 26 + ln (26 / 25)) + ln 0.3)
               + logaddexp (ln 5 - 25 / 2 + ln 0.7) (- (1 / 2) * ln (26 / 25) + ln 0.3)),
          [ln 5 + ln 0.7, ln 5 - 25 / 2 + ln 0.7],
          [- (1 / 2) * (25 / 26 + ln (26 / 25)) + ln 0.3, - (1 / 2) * ln (26 / 25) + ln 0.3])"
proof -
  have "\<exists>ll_fg ll_bg.
    lnlike_fg example_data [1, 0, 0.7, 0, 0] = Inr ll_fg \<and> length ll_fg = length (x example_data) \<and>
    lnlike_bg example_data [1, 0, 0.7, 0, 0] = Inr ll_bg \<and> length ll_bg = length (x example_data) \<and>
    lnprior [1, 0, 0.7, 0, 0] = Fin 0 \<and>
    lnprob example_data [1, 0, 0.7, 0, 0] =
      Inr (Fin (0 + (\<Sum>k < length (x example_data).
                  logaddexp (ll_fg ! k + ln 0.7) (ll_bg ! k + ln (1 - 0.7)))),
           map (\<lambda>v. v + ln 0.7) ll_fg, map (\<lambda>v. v + ln (1 - 0.7)) ll_bg)"
    by (rule lnprob_inside_bounds [OF wf_example_data]) simp_all
  then obtain ll_fg ll_bg where
    fg: "lnlike_fg example_data [1, 0, 0.7, 0, 0] = Inr ll_fg" and
    bg: "lnlike_bg example_data [1, 0, 0.7, 0, 0] = Inr ll_bg" and
    run: "lnprob example_data [1, 0, 0.7, 0, 0] =
      Inr (Fin (0 + (\<Sum>k < length (x example_data).
                  logaddexp (ll_fg ! k + ln 0.7) (ll_bg ! k + ln (1 - 0.7)))),
           map (\<lambda>v. v + ln 0.7) ll_fg, map (\<lambda>v. v + ln (1 - 0.7)) ll_bg)"
    by blast
  from fg have ll_fg: "ll_fg = [ln 5, ln 5 - 25 / 2]"
    by (simp add: lnlike_fg_example)
  from bg have ll_bg: "ll_bg = [- (1 / 2) * (25 / 26 + ln (26 / 25)), - (1 / 2) * ln (26 / 25)]"
    by (simp add: lnlike_bg_example)
  have "lnprob example_data [1, 0, 0.7, 0, 0] =
     Inr (Fin (logaddexp (ln 5 + ln 0.7) (- (1 / 2) * (25 / 26 + ln (26 / 25)) + ln 0.3)
               + logaddexp (ln 5 - 25 / 2 + ln 0.7) (- (1 / 2) * ln (26 / 25) + ln 0.3)),
          [ln 5 + ln 0.7, ln 5 - 25 / 2 + ln 0.7],
          [- (1 / 2) * (25 / 26 + ln (26 / 25)) + ln 0.3, - (1 / 2) * ln (26 / 25) + ln 0.3])"
    unfolding run ll_fg ll_bg by (simp add: example_data_simps numeral_2_eq_2)
  with wf_example_data show ?thesis by simp
qed

lemma logaddexp_mixture:
  assumes "0 < Q" "Q < 1"
  shows "logaddexp (f + ln Q) (g + ln (1 - Q)) = ln (Q * exp f + (1 - Q) * exp g)"
  using assms by (simp add: logaddexp_eq exp_add mult.commute)

lemma membership_mixture:
  assumes "0 < Q" "Q < 1"
  shows "exp (f + ln Q - logaddexp (f + ln Q) (g + ln (1 - Q))) =
    Q * exp f / (Q * exp f + (1 - Q) * exp g)"
proof -
  have pos: "0 < Q * exp f + (1 - Q) * exp g"
    using assms by (simp add: add_pos_pos)
  have "exp (f + ln Q - logaddexp (f + ln Q) (g + ln (1 - Q))) =
      exp (f + ln Q) / exp (ln (Q * exp f + (1 - Q) * exp g))"
    by (simp only: logaddexp_mixture [OF assms] exp_diff)
  also have "\<dots> = Q * exp f / (Q * exp f + (1 - Q) * exp g)"
    using assms pos by (simp add: exp_add mult.commute)
  finally show ?thesis .
qed

lemma membership_same_length:
  "length ll_fg = length ll_bg \<Longrightarrow>
   membership ll_fg ll_bg = Inr (map2 (\<lambda>f g. exp (f - logaddexp f g)) ll_fg ll_bg)"
proof -
  assume len: "length ll_fg = length ll_bg"
  have "map exp (map2 (-) ll_fg (map2 logaddexp ll_fg ll_bg)) =
      map2 (\<lambda>f g. exp (f - logaddexp f g)) ll_fg ll_bg"
    by (rule nth_equalityI) (simp_all add: len)
  then show ?thesis
    by (simp add: membership_def np_logaddexp_same_length np_subtract_same_length len)
qed

text \<open>
  C2. For a parameter vector inside the bounds, the combined per-point log-likelihood
  that \<open>lnprob\<close> computes from the two arrays it returns, \<open>logaddexp arg1\<^sub>k arg2\<^sub>k\<close> with
  \<open>arg1\<^sub>k = ll_fg\<^sub>k + ln Q\<close> and \<open>arg2\<^sub>k = ll_bg\<^sub>k + ln (1 - Q)\<close>, is the logarithm of the mixture
  computed in linear space, \<open>ln (Q exp ll_fg\<^sub>k + (1 - Q) exp ll_bg\<^sub>k)\<close>, for every observation
  \<open>k\<close>; the first value \<open>lnprob\<close> returns is the sum of these logarithms.
\<close>

theorem combined_is_log_mixture:
  assumes "wf_data d"
    and "0.1 < m" "m < 1.9" "- 0.9 < b" "b < 0.9" "0 < Q" "Q < 1"
    and "- 2.4 < M" "M < 2.4" "- 7.2 < lnV" "lnV < 5.2"
  shows "\<exists>ll_fg ll_bg total arg1 arg2.
    lnlike_fg d [m, b, Q, M, lnV] = Inr ll_fg \<and> length ll_fg = length (x d) \<and>
    lnlike_bg d [m, b, Q, M, lnV] = Inr ll_bg \<and> length ll_bg = length (x d) \<and>
    lnprob d [m, b, Q, M, lnV] = Inr (Fin total, arg1, arg2) \<and>
    arg1 = map (\<lambda>v. v + ln Q) ll_fg \<and> arg2 = map (\<lambda>v. v + ln (1 - Q)) ll_bg \<and>
    np_logaddexp arg1 arg2 =
      Inr (map (\<lambda>k. ln (Q * exp (ll_fg ! k) + (1 - Q) * exp (ll_bg ! k))) [0..<length (x d)]) \<and>
    (\<forall>k < length (x d).
       logaddexp (arg1 ! k) (arg2 ! k) =
         ln (Q * exp (ll_fg ! k) + (1 - Q) * exp (ll_bg ! k)) \<and>
       logaddexp (ll_fg ! k + ln Q) (ll_bg ! k + ln (1 - Q)) =
         ln (Q * exp (ll_fg ! k) + (1 - Q) * exp (ll_bg ! k))) \<and>
    total = 0 + (\<Sum>k < length (x d). ln (Q * exp (ll_fg ! k) + (1 - Q) * exp (ll_bg ! k)))"
proof -
  note mix = logaddexp_mixture [OF \<open>0 < Q\<close> \<open>Q < 1\<close>]
  have prior: "lnprior [m, b, Q, M, lnV] = Fin 0"
    using assms(2-) by (simp add: lnprior_inside)
  from assms(1) prior obtain ll_fg ll_bg where
    run: "lnlike_fg d [m, b, Q, M, lnV] = Inr ll_fg" "length ll_fg = length (x d)"
      "lnlike_bg d [m, b, Q, M, lnV] = Inr ll_bg" "length ll_bg = length (x d)"
    and prob: "lnprob d [m, b, Q, M, lnV] =
      Inr (Fin (0 + sum_list (map2 logaddexp (map (\<lambda>v. v + ln Q) ll_fg)
                                           (map (\<lambda>v. v + ln (1 - Q)) ll_bg))),
           map (\<lambda>v. v + ln Q) ll_fg, map (\<lambda>v. v + ln (1 - Q)) ll_bg)"
    by (rule lnprob_runs)
  let ?arg1 = "map (\<lambda>v. v + ln Q) ll_fg" and ?arg2 = "map (\<lambda>v. v + ln (1 - Q)) ll_bg"
  let ?mix = "\<lambda>k. ln (Q * exp (ll_fg ! k) + (1 - Q) * exp (ll_bg ! k))"
  have "map2 logaddexp ?arg1 ?arg2 = map ?mix [0..<length (x d)]"
    by (rule nth_equalityI) (simp_all add: run mix)
  then have vec: "np_logaddexp ?arg1 ?arg2 = Inr (map ?mix [0..<length (x d)])"
    by (simp add: np_logaddexp_same_length run)
  have "sum_list (map2 logaddexp ?arg1 ?arg2) =
      (\<Sum>k < length (x d). logaddexp (ll_fg ! k + ln Q) (ll_bg ! k + ln (1 - Q)))"
    by (simp add: sum_list_map2_nth [where n = "length (x d)"] run)
  then have total: "0 + sum_list (map2 logaddexp ?arg1 ?arg2) = 0 + (\<Sum>k < length (x d). ?mix k)"
    by (simp add: mix)
  have entries: "\<forall>k < length (x d).
      logaddexp (?arg1 ! k) (?arg2 ! k) = ?mix k \<and>
      logaddexp (ll_fg ! k + ln Q) (ll_bg ! k + ln (1 - Q)) = ?mix k"
    by (simp add: run mix)
  from run prob vec entries total show ?thesis
    by (intro exI [of _ ll_fg] exI [of _ ll_bg]
        exI [of _ "0 + (\<Sum>k < length (x d). ?mix k)"] exI [of _ ?arg1] exI [of _ ?arg2])
      (simp only: simp_thms)
qed

theorem combined_is_log_mixture_witness:
  "wf_data example_data \<and> (0.1 :: real) < 1 \<and> (1 :: real) < 1.9 \<and>
   - 0.9 < (0 :: real) \<and> (0 :: real) < 0.9 \<and> (0 :: real) < 0.7 \<and> (0.7 :: real) < 1 \<and>
   - 2.4 < (0 :: real) \<and> (0 :: real) < 2.4 \<and> - 7.2 < (0 :: real) \<and> (0 :: real) < 5.2 \<and>
   lnprob example_data [1, 0, 0.7, 0, 0] =
     Inr (Fin (ln (0.7 * 5 + 0.3 * exp (- (1 / 2) * (25 / 26 + ln (26 / 25))))
               + ln (0.7 * exp (ln 5 - 25 / 2) + 0.3 * exp (- (1 / 2) * ln (26 / 25)))),
          [ln 5 + ln 0.7, ln 5 - 25 / 2 + ln 0.7],
          [- (1 / 2) * (25 / 26 + ln (26 / 25)) + ln 0.3, - (1 / 2) * ln (26 / 25) + ln 0.3]) \<and>
   np_logaddexp [ln 5 + ln 0.7, ln 5 - 25 / 2 + ln 0.7]
       [- (1 / 2) * (25 / 26 + ln (26 / 25)) + ln 0.3, - (1 / 2) * ln (26 / 25) + ln 0.3] =
     Inr [ln (0.7 * 5 + 0.3 * exp (- (1 / 2) * (25 / 26 + ln (26 / 25)))),
          ln (0.7 * exp (ln 5 - 25 / 2) + 0.3 * exp (- (1 / 2) * ln (26 / 25)))]"
proof -
  from combined_is_log_mixture [OF wf_example_data bounds_example]
  obtain ll_fg ll_bg total where
    fg: "lnlike_fg example_data [1, 0, 0.7, 0, 0] = Inr ll_fg" and
    bg: "lnlike_bg example_data [1, 0, 0.7, 0, 0] = Inr ll_bg" and
    prob: "lnprob example_data [1, 0, 0.7, 0, 0] =
      Inr (Fin total, map (\<lambda>v. v + ln 0.7) ll_fg, map (\<lambda>v. v + ln (1 - 0.7)) ll_bg)" and
    vec: "np_logaddexp (map (\<lambda>v. v + ln 0.7) ll_fg) (map (\<lambda>v. v + ln (1 - 0.7)) ll_bg) =
      Inr (map (\<lambda>k. ln (0.7 * exp (ll_fg ! k) + (1 - 0.7) * exp (ll_bg ! k)))
             [0..<length (x example_data)])" and
    total: "total = 0 + (\<Sum>k < length (x example_data).
      ln (0.7 * exp (ll_fg ! k) + (1 - 0.7) * exp (ll_bg ! k)))"
    by blast
  from fg have ll_fg: "ll_fg = [ln 5, ln 5 - 25 / 2]"
    by (simp add: lnlike_fg_example)
  from bg have ll_bg: "ll_bg = [- (1 / 2) * (25 / 26 + ln (26 / 25)), - (1 / 2) * ln (26 / 25)]"
    by (simp add: lnlike_bg_example)
  have two: "[0..<length (x example_data)] = [0, 1]"
    by (simp add: example_data_simps upt_rec)
  from vec have "np_logaddexp [ln 5 + ln 0.7, ln 5 - 25 / 2 + ln 0.7]
       [- (1 / 2) * (25 / 26 + ln (26 / 25)) + ln 0.3, - (1 / 2) * ln (26 / 25) + ln 0.3] =
     Inr [ln (0.7 * 5 + 0.3 * exp (- (1 / 2) * (25 / 26 + ln (26 / 25)))),
          ln (0.7 * exp (ln 5 - 25 / 2) + 0.3 * exp (- (1 / 2) * ln (26 / 25)))]"
    unfolding ll_fg ll_bg two by simp
  moreover have "lnprob example_data [1, 0, 0.7, 0, 0] =
     Inr (Fin (ln (0.7 * 5 + 0.3 * exp (- (1 / 2) * (25 / 26 + ln (26 / 25))))
               + ln (0.7 * exp (ln 5 - 25 / 2) + 0.3 * exp (- (1 / 2) * ln (26 / 25)))),
          [ln 5 + ln 0.7, ln 5 - 25 / 2 + ln 0.7],
          [- (1 / 2) * (25 / 26 + ln (26 / 25)) + ln 0.3, - (1 / 2) * ln (26 / 25) + ln 0.3])"
    unfolding prob total ll_fg ll_bg by (simp add: example_data_simps numeral_2_eq_2)
  ultimately show ?thesis using wf_example_data by simp
qed

text \<open>
  C5. For a parameter vector inside the bounds, the term that the summarizer computes
  from the two arrays \<open>lnprob\<close> stores, \<open>exp (arg1\<^sub>k - logaddexp arg1\<^sub>k arg2\<^sub>k)\<close>, is
  \<open>Q p_fg\<^sub>k / (Q p_fg\<^sub>k + (1 - Q) p_bg\<^sub>k)\<close> with \<open>p_fg\<^sub>k = exp ll_fg\<^sub>k\<close> and
  \<open>p_bg\<^sub>k = exp ll_bg\<^sub>k\<close>, for every observation \<open>k\<close>.
\<close>

theorem membership_is_posterior:
  assumes "wf_data d"
    and "0.1 < m" "m < 1.9" "- 0.9 < b" "b < 0.9" "0 < Q" "Q < 1"
    and "- 2.4 < M" "M < 2.4" "- 7.2 < lnV" "lnV < 5.2"
  shows "\<exists>ll_fg ll_bg lp arg1 arg2.
    lnlike_fg d [m, b, Q, M, lnV] = Inr ll_fg \<and> length ll_fg = length (x d) \<and>
    lnlike_bg d [m, b, Q, M, lnV] = Inr ll_bg \<and> length ll_bg = length (x d) \<and>
    lnprob d [m, b, Q, M, lnV] = Inr (lp, arg1, arg2) \<and>
    arg1 = map (\<lambda>v. v + ln Q) ll_fg \<and> arg2 = map (\<lambda>v. v + ln (1 - Q)) ll_bg \<and>
    membership arg1 arg2 =
      Inr (map (\<lambda>k. Q * exp (ll_fg ! k) / (Q * exp (ll_fg ! k) + (1 - Q) * exp (ll_bg ! k)))
             [0..<length (x d)])"
proof -
  have prior: "lnprior [m, b, Q, M, lnV] = Fin 0"
    using assms(2-) by (simp add: lnprior_inside)
  from assms(1) prior obtain ll_fg ll_bg where
    run: "lnlike_fg d [m, b, Q, M, lnV] = Inr ll_fg" "length ll_fg = length (x d)"
      "lnlike_bg d [m, b, Q, M, lnV] = Inr ll_bg" "length ll_bg = length (x d)"
    and prob: "lnprob d [m, b, Q, M, lnV] =
      Inr (Fin (0 + sum_list (map2 logaddexp (map (\<lambda>v. v + ln Q) ll_fg)
                                           (map (\<lambda>v. v + ln (1 - Q)) ll_bg))),
           map (\<lambda>v. v + ln Q) ll_fg, map (\<lambda>v. v + ln (1 - Q)) ll_bg)"
    by (rule lnprob_runs)
  have "map2 (\<lambda>f g. exp (f - logaddexp f g))
          (map (\<lambda>v. v + ln Q) ll_fg) (map (\<lambda>v. v + ln (1 - Q)) ll_bg) =
      map (\<lambda>k. Q * exp (ll_fg ! k) / (Q * exp (ll_fg ! k) + (1 - Q) * exp (ll_bg ! k)))
        [0..<length (x d)]"
    by (rule nth_equalityI) (simp_all add: run membership_mixture [OF \<open>0 < Q\<close> \<open>Q < 1\<close>])
  then have "membership (map (\<lambda>v. v + ln Q) ll_fg) (map (\<lambda>v. v + ln (1 - Q)) ll_bg) =
      Inr (map (\<lambda>k. Q * exp (ll_fg ! k) / (Q * exp (ll_fg ! k) + (1 - Q) * exp (ll_bg ! k)))
             [0..<length (x d)])"
    by (simp add: membership_same_length run)
  with run prob show ?thesis by simp
qed

theorem membership_is_posterior_witness:
  "wf_data example_data \<and> (0.1 :: real) < 1 \<and> (1 :: real) < 1.9 \<and>
   - 0.9 < (0 :: real) \<and> (0 :: real) < 0.9 \<and> (0 :: real) < 0.7 \<and> (0.7 :: real) < 1 \<and>
   - 2.4 < (0 :: real) \<and> (0 :: real) < 2.4 \<and> - 7.2 < (0 :: real) \<and> (0 :: real) < 5.2 \<and>
   membership [ln 5 + ln 0.7, ln 5 - 25 / 2 + ln 0.7]
       [- (1 / 2) * (25 / 26 + ln (26 / 25)) + ln 0.3, - (1 / 2) * ln (26 / 25) + ln 0.3] =
     Inr [35 / (35 + 3 * exp (- ((25 / 26 + ln (26 / 25)) / 2))),
          7 * exp (ln 5 - 25 / 2) /
            (7 * exp (ln 5 - 25 / 2) + 3 * exp (- (ln (26 / 25) / 2)))]"
proof -
  from membership_is_posterior [OF wf_example_data bounds_example]
  obtain ll_fg ll_bg where
    fg: "lnlike_fg example_data [1, 0, 0.7, 0, 0] = Inr ll_fg" and
    bg: "lnlike_bg example_data [1, 0, 0.7, 0, 0] = Inr ll_bg" and
    run: "membership (map (\<lambda>v. v + ln 0.7) ll_fg) (map (\<lambda>v. v + ln (1 - 0.7)) ll_bg) =
      Inr (map (\<lambda>k. 0.7 * exp (ll_fg ! k) / (0.7 * exp (ll_fg ! k) + (1 - 0.7) * exp (ll_bg ! k)))
             [0..<length (x example_data)])"
    by blast
  from fg have ll_fg: "ll_fg = [ln 5, ln 5 - 25 / 2]"
    by (simp add: lnlike_fg_example)
  from bg have ll_bg: "ll_bg = [- (1 / 2) * (25 / 26 + ln (26 / 25)), - (1 / 2) * ln (26 / 25)]"
    by (simp add: lnlike_bg_example)
  have two: "[0..<length (x example_data)] = [0, 1]"
    by (simp add: example_data_simps upt_rec)
  from run have "membership [ln 5 + ln 0.7, ln 5 - 25 / 2 + ln 0.7]
       [- (1 / 2) * (25 / 26 + ln (26 / 25)) + ln 0.3, - (1 / 2) * ln (26 / 25) + ln 0.3] =
     Inr [35 / (35 + 3 * exp (- ((25 / 26 + ln (26 / 25)) / 2))),
          7 * exp (ln 5 - 25 / 2) /
            (7 * exp (ln 5 - 25 / 2) + 3 * exp (- (ln (26 / 25) / 2)))]"
    unfolding ll_fg ll_bg two by simp
  with wf_example_data show ?thesis by simp
qed

text \<open>
  C3. For a parameter vector with some component not strictly between its two bounds,
  the prior is \<open>-\<infinity>\<close> and \<open>lnprob\<close> returns \<open>-\<infinity>\<close> with two arrays of zeros, each as long as
  \<open>y\<close>.
\<close>

theorem lnprob_outside_bounds:
  assumes "\<not> (0.1 < m \<and> m < 1.9 \<and> - 0.9 < b \<and> b < 0.9 \<and> 0 < Q \<and> Q < 1 \<and>
              - 2.4 < M \<and> M < 2.4 \<and> - 7.2 < lnV \<and> lnV < 5.2)"
  shows "lnprior [m, b, Q, M, lnV] = NegInf \<and>
    lnprob d [m, b, Q, M, lnV] =
      Inr (NegInf, replicate (length (y d)) 0, replicate (length (y d)) 0)"
proof -
  have "lnprior [m, b, Q, M, lnV] = NegInf"
    by (rule iffD2 [OF lnprior_outside]) (rule assms)
  then show ?thesis by (simp add: lnprob_rejected)
qed

theorem lnprob_outside_bounds_witness:
  "\<not> (0.1 < (2 :: real) \<and> (2 :: real) < 1.9 \<and> - 0.9 < (0 :: real) \<and> (0 :: real) < 0.9 \<and>
      (0 :: real) < 0.7 \<and> (0.7 :: real) < 1 \<and> - 2.4 < (0 :: real) \<and> (0 :: real) < 2.4 \<and>
      - 7.2 < (0 :: real) \<and> (0 :: real) < 5.2) \<and>
   lnprior [2, 0, 0.7, 0, 0] = NegInf \<and>
   lnprob example_data [2, 0, 0.7, 0, 0] = Inr (NegInf, [0, 0], [0, 0])"
  using lnprob_outside_bounds [of 2 0 "0.7" 0 0 example_data]
  by (simp add: example_data_simps numeral_2_eq_2)

text \<open>
  C10. A parameter vector with some component equal to an endpoint of its bound is
  rejected: the comparison is strict on both sides, so the prior is \<open>-\<infinity>\<close> and \<open>lnprob\<close>
  returns \<open>-\<infinity>\<close> with the two arrays of zeros.
\<close>

theorem lnprob_on_boundary:
  assumes "m = 0.1 \<or> m = 1.9 \<or> b = - 0.9 \<or> b = 0.9 \<or> Q = 0 \<or> Q = 1 \<or>
           M = - 2.4 \<or> M = 2.4 \<or> lnV = - 7.2 \<or> lnV = 5.2"
  shows "lnprior [m, b, Q, M, lnV] = NegInf \<and>
    lnprob d [m, b, Q, M, lnV] =
      Inr (NegInf, zeros_like (y d), zeros_like (y d))"
proof -
  from assms have "\<not> (0.1 < m \<and> m < 1.9 \<and> - 0.9 < b \<and> b < 0.9 \<and> 0 < Q \<and> Q < 1 \<and>
              - 2.4 < M \<and> M < 2.4 \<and> - 7.2 < lnV \<and> lnV < 5.2)"
    by auto
  then have "lnprior [m, b, Q, M, lnV] = NegInf"
    by (rule iffD2 [OF lnprior_outside])
  then show ?thesis by (simp add: lnprob_rejected zeros_like_def zeros_def)
qed

theorem lnprob_on_boundary_witness:
  "lnprob example_data [1, 0, 0, 0, 0] = Inr (NegInf, [0, 0], [0, 0]) \<and>
   lnprob example_data [1, 0, 1, 0, 0] = Inr (NegInf, [0, 0], [0, 0]) \<and>
   lnprob example_data [0.1, 0, 0.7, 0, 0] = Inr (NegInf, [0, 0], [0, 0])"
  using lnprob_on_boundary [of 1 0 0 0 0 example_data]
    lnprob_on_boundary [of 1 0 1 0 0 example_data]
    lnprob_on_boundary [of "0.1" 0 "0.7" 0 0 example_data]
  by (simp add: example_data_simps zeros_like_def zeros_def numeral_2_eq_2)

lemma wf_data_notebook:
  "yerr d = mk_yerr (x d) \<Longrightarrow> length (y d) = length (x d) \<Longrightarrow> wf_data d"
  by (simp add: wf_data_def mk_yerr_def ones_like_def list_all_iff)

text \<open>
  C9. On the data as the notebook builds it (\<open>yerr = 0.2 * np.ones_like(x)\<close>, and \<open>y\<close> as
  long as \<open>x\<close>), for a parameter vector that the prior check accepts, every argument of a
  logarithm and every divisor inside \<open>lnprob\<close> is positive: \<open>Q\<close>, \<open>1 - Q\<close>, each \<open>\<sigma>\<^sub>k\<close> and
  each \<open>var\<^sub>k = exp lnV + \<sigma>\<^sub>k\<^sup>2\<close>. So every logarithm is defined, the two evaluators return
  arrays, and \<open>lnprob\<close> returns a finite value and never the floating-point error.
\<close>

theorem lnprob_no_domain_error:
  assumes "yerr d = mk_yerr (x d)" and "length (y d) = length (x d)"
    and "isfinite (lnprior [m, b, Q, M, lnV])"
  shows "0 < Q \<and> 0 < 1 - Q \<and>
    (\<forall>s \<in> set (yerr d). 0 < s \<and> 0 < exp lnV + s ^ 2) \<and>
    log_elem Q = Inr (ln Q) \<and> log_elem (1 - Q) = Inr (ln (1 - Q)) \<and>
    np_log (yerr d) = Inr (map ln (yerr d)) \<and>
    np_log (map (\<lambda>s. exp lnV + s ^ 2) (yerr d)) =
      Inr (map (\<lambda>s. ln (exp lnV + s ^ 2)) (yerr d)) \<and>
    (\<exists>ll_fg. lnlike_fg d [m, b, Q, M, lnV] = Inr ll_fg) \<and>
    (\<exists>ll_bg. lnlike_bg d [m, b, Q, M, lnV] = Inr ll_bg) \<and>
    (\<exists>lp arg1 arg2. lnprob d [m, b, Q, M, lnV] = Inr (Fin lp, arg1, arg2))"
proof -
  have wf: "wf_data d"
    using assms(1,2) by (rule wf_data_notebook)
  from assms(3) have prior: "lnprior [m, b, Q, M, lnV] = Fin 0"
    using lnprior_cases [of "[m, b, Q, M, lnV]"] by auto
  then have Q: "0 < Q" "Q < 1"
    by (simp_all add: lnprior_inside)
  have sigma: "0 < s" if "s \<in> set (yerr d)" for s
    using that by (auto simp: assms(1) mk_yerr_def ones_like_def)
  have var: "0 < exp lnV + s ^ 2" for s :: real
    by (simp add: add_pos_nonneg)
  have "np_log (map (\<lambda>s. exp lnV + s ^ 2) (yerr d)) =
      Inr (map ln (map (\<lambda>s. exp lnV + s ^ 2) (yerr d)))"
    by (rule np_log_positive) (use var in auto)
  then have logvar: "np_log (map (\<lambda>s. exp lnV + s ^ 2) (yerr d)) =
      Inr (map (\<lambda>s. ln (exp lnV + s ^ 2)) (yerr d))"
    by (simp add: comp_def)
  have logsigma: "np_log (yerr d) = Inr (map ln (yerr d))"
    by (rule np_log_positive) (rule sigma)
  from wf prior obtain ll_fg ll_bg where
    "lnlike_fg d [m, b, Q, M, lnV] = Inr ll_fg" "lnlike_bg d [m, b, Q, M, lnV] = Inr ll_bg"
    "lnprob d [m, b, Q, M, lnV] =
      Inr (Fin (0 + sum_list (map2 logaddexp (map (\<lambda>v. v + ln Q) ll_fg)
                                           (map (\<lambda>v. v + ln (1 - Q)) ll_bg))),
           map (\<lambda>v. v + ln Q) ll_fg, map (\<lambda>v. v + ln (1 - Q)) ll_bg)"
    by (rule lnprob_runs)
  with Q sigma var logvar logsigma show ?thesis
    by (simp add: log_elem_def)
qed

theorem lnprob_no_domain_error_witness:
  "yerr example_data = mk_yerr (x example_data) \<and>
   length (y example_data) = length (x example_data) \<and>
   isfinite (lnprior [1, 0, 0.7, 0, 0]) \<and>
   log_elem 0.7 = Inr (ln 0.7) \<and> log_elem (1 - 0.7) = Inr (ln (1 - 0.7)) \<and>
   np_log (yerr example_data) = Inr [ln 0.2, ln 0.2] \<and>
   (\<exists>lp arg1 arg2. lnprob example_data [1, 0, 0.7, 0, 0] = Inr (Fin lp, arg1, arg2))"
proof -
  have built: "yerr example_data = mk_yerr (x example_data)"
    and len: "length (y example_data) = length (x example_data)"
    by (simp_all add: example_data_def)
  have accepted: "isfinite (lnprior [1, 0, 0.7, 0, 0])"
    by (simp add: lnprior_def bounds_def)
  from lnprob_no_domain_error [OF built len accepted] built len accepted
  show ?thesis by (simp add: example_data_simps)
qed

section \<open>The summarizer loops\<close>

lemma getitem_in_range: "i < length as \<Longrightarrow> getitem as i = Inr (as ! i)"
  by (simp add: getitem_def)

lemma iadd_same_length: "length v = length acc \<Longrightarrow> iadd acc v = Inr (map2 (+) acc v)"
  by (simp add: iadd_def)

lemma membership_entries:
  assumes "length (fst blob) = K" "length (snd blob) = K"
  shows "membership (fst blob) (snd blob) = Inr (map (membership_term blob) [0..<K])"
proof -
  have "map2 (\<lambda>f g. exp (f - logaddexp f g)) (fst blob) (snd blob) = map (membership_term blob) [0..<K]"
    by (rule nth_equalityI) (simp_all add: assms membership_term_def)
  then show ?thesis
    by (simp add: membership_same_length assms)
qed

lemma accumulate_step:
  assumes "i < length (blobs S)" "j < length (blobs S ! i)"
    and "length (fst (blobs S ! i ! j)) = K" "length (snd (blobs S ! i ! j)) = K"
    and "length acc = K"
  shows "accumulate S i j (n, acc) =
    Inr (n + 1, map (\<lambda>k. acc ! k + membership_term (blobs S ! i ! j) k) [0..<K])"
proof -
  have "map2 (+) acc (map (membership_term (blobs S ! i ! j)) [0..<K]) =
      map (\<lambda>k. acc ! k + membership_term (blobs S ! i ! j) k) [0..<K]"
    by (rule nth_equalityI) (simp_all add: assms(5))
  then show ?thesis
    by (simp add: accumulate_def getitem_in_range assms(1,2) split_beta
        membership_entries [OF assms(3,4)] iadd_same_length assms(5))
qed

lemma inner_loop:
  assumes "i < length (blobs S)"
    and "\<And>j. j \<in> set js \<Longrightarrow> j < length (blobs S ! i) \<and>
           length (fst (blobs S ! i ! j)) = K \<and> length (snd (blobs S ! i ! j)) = K"
    and "length acc = K"
  shows "for_each (accumulate S i) js (n, acc) =
    Inr (n + real (length js),
         map (\<lambda>k. acc ! k + (\<Sum>j\<leftarrow>js. membership_term (blobs S ! i ! j) k)) [0..<K])"
  using assms(2,3)
proof (induction js arbitrary: n acc)
  case Nil
  then show ?case using map_nth [of acc] by auto
next
  case (Cons j js)
  let ?acc = "map (\<lambda>k. acc ! k + membership_term (blobs S ! i ! j) k) [0..<K]"
  have step: "accumulate S i j (n, acc) = Inr (n + 1, ?acc)"
    using Cons.prems by (intro accumulate_step assms(1)) simp_all
  have "for_each (accumulate S i) js (n + 1, ?acc) =
      Inr (n + 1 + real (length js),
           map (\<lambda>k. ?acc ! k + (\<Sum>j\<leftarrow>js. membership_term (blobs S ! i ! j) k)) [0..<K])"
    using Cons.prems by (intro Cons.IH) simp_all
  moreover have "map (\<lambda>k. ?acc ! k + (\<Sum>j\<leftarrow>js. membership_term (blobs S ! i ! j) k)) [0..<K] =
      map (\<lambda>k. acc ! k + (\<Sum>j\<leftarrow>j # js. membership_term (blobs S ! i ! j) k)) [0..<K]"
    by (rule map_cong) simp_all
  ultimately show ?case
    by (simp add: step add.assoc add.commute)
qed

lemma outer_loop:
  assumes "\<And>i. i \<in> set steps \<Longrightarrow> i < length (blobs S) \<and> length (blobs S ! i) = W \<and>
       (\<forall>j < W. length (fst (blobs S ! i ! j)) = K \<and> length (snd (blobs S ! i ! j)) = K)"
    and "length acc = K"
  shows "for_each (\<lambda>i. for_each (accumulate S i) [0..<W]) steps (n, acc) =
    Inr (n + real (length steps * W),
         map (\<lambda>k. acc ! k + (\<Sum>i\<leftarrow>steps. \<Sum>j < W. membership_term (blobs S ! i ! j) k)) [0..<K])"
  using assms
proof (induction steps arbitrary: n acc)
  case Nil
  then show ?case using map_nth [of acc] by auto
next
  case (Cons i steps)
  let ?acc = "map (\<lambda>k. acc ! k + (\<Sum>j\<leftarrow>[0..<W]. membership_term (blobs S ! i ! j) k)) [0..<K]"
  have row: "for_each (accumulate S i) [0..<W] (n, acc) = Inr (n + real W, ?acc)"
    using inner_loop [of i S "[0..<W]" K acc n] Cons.prems by simp
  have rest: "for_each (\<lambda>i. for_each (accumulate S i) [0..<W]) steps (n + real W, ?acc) =
      Inr (n + real W + real (length steps * W),
           map (\<lambda>k. ?acc ! k + (\<Sum>i\<leftarrow>steps. \<Sum>j < W. membership_term (blobs S ! i ! j) k)) [0..<K])"
    using Cons.prems by (intro Cons.IH) simp_all
  have "map (\<lambda>k. ?acc ! k + (\<Sum>i\<leftarrow>steps. \<Sum>j < W. membership_term (blobs S ! i ! j) k)) [0..<K] =
      map (\<lambda>k. acc ! k + (\<Sum>i\<leftarrow>i # steps. \<Sum>j < W. membership_term (blobs S ! i ! j) k)) [0..<K]"
    by (rule map_cong) (simp_all add: interv_sum_list_conv_sum_set_nat atLeast0LessThan)
  with row rest show ?case
    by (simp add: algebra_simps)
qed

lemma post_prob_run:
  assumes "wf_sampler d S" and "chain_shape S = (W, T, D)" and "0 < W" "0 < T"
  shows "post_prob d S old =
    Inr (real (T * W),
         map (\<lambda>k. (\<Sum>i < T. \<Sum>j < W. membership_term (blobs S ! i ! j) k) / real (T * W))
           [0..<length (x d)])"
proof -
  let ?K = "length (x d)"
  from assms(1,2) have rows: "length (blobs S) = T"
    and row: "\<And>i. i < T \<Longrightarrow> length (blobs S ! i) = W \<and>
       (\<forall>j < W. length (fst (blobs S ! i ! j)) = ?K \<and> length (snd (blobs S ! i ! j)) = ?K)"
    by (auto simp: wf_sampler_def list_all_length split_beta)
  have "for_each (\<lambda>i. for_each (accumulate S i) [0..<W]) [0..<T] (0, zeros ?K) =
      Inr (0 + real (length [0..<T] * W),
           map (\<lambda>k. zeros ?K ! k + (\<Sum>i\<leftarrow>[0..<T]. \<Sum>j < W. membership_term (blobs S ! i ! j) k)) [0..<?K])"
    by (rule outer_loop) (use rows row in \<open>simp_all add: zeros_def\<close>)
  also have "map (\<lambda>k. zeros ?K ! k + (\<Sum>i\<leftarrow>[0..<T]. \<Sum>j < W. membership_term (blobs S ! i ! j) k)) [0..<?K] =
      map (\<lambda>k. \<Sum>i < T. \<Sum>j < W. membership_term (blobs S ! i ! j) k) [0..<?K]"
    by (rule map_cong) (simp_all add: zeros_def interv_sum_list_conv_sum_set_nat atLeast0LessThan)
  finally have loops: "for_each (\<lambda>i. for_each (accumulate S i) [0..<W]) [0..<T] (0, zeros ?K) =
      Inr (real (T * W), map (\<lambda>k. \<Sum>i < T. \<Sum>j < W. membership_term (blobs S ! i ! j) k) [0..<?K])"
    by simp
  have "real (T * W) \<noteq> 0"
    using assms(3,4) by simp
  then have "sequence (map (\<lambda>v. divide_elem v (real (T * W))) vs) =
      Inr (map (\<lambda>v. v / real (T * W)) vs)" for vs
    by (intro sequence_map_Inr) (simp add: divide_elem_def)
  with loops show ?thesis
    by (simp add: post_prob_def assms(2) comp_def)
qed

lemma membership_term_unit: "0 < membership_term blob k \<and> membership_term blob k < 1"
proof -
  have "membership_term blob k = exp (fst blob ! k) / (exp (fst blob ! k) + exp (snd blob ! k))"
    by (simp add: membership_term_def logaddexp_eq exp_diff add_pos_pos)
  moreover have "0 < exp (fst blob ! k) + exp (snd blob ! k)"
    by (simp add: add_pos_pos)
  ultimately show ?thesis by simp
qed

lemma wf_example_sampler: "wf_sampler example_data example_sampler"
  by (simp add: wf_sampler_def example_sampler_def example_data_simps)

lemma example_sampler_simps:
  "chain_shape example_sampler = (2, 1, 5)"
  "blobs example_sampler ! 0 ! 0 = ([0, 0], [0, 0])"
  "blobs example_sampler ! 0 ! Suc 0 = ([ln 3, 0], [0, 0])"
  by (simp_all add: example_sampler_def)

lemma sum_lessThan_2: "(\<Sum>j < 2. f j) = f 0 + f (Suc 0)" for f :: "nat \<Rightarrow> real"
  by (simp add: numeral_2_eq_2)

lemma logaddexp_example:
  "logaddexp 0 0 = ln 2" "logaddexp (ln 3) 0 = ln 4"
  by (simp_all add: logaddexp_eq)

text \<open>
  C4. When the sampler stored one row of blobs per production step and one blob per
  walker, each a pair of arrays with one entry per observation, and there is at least one
  walker and one step, the summarizer cell ends with \<open>norm = N\<close>, the number of steps times
  the number of walkers, and with \<open>post_prob\<close> the array whose \<open>k\<close>-th entry is
  \<open>(1/N) \<Sum>\<^sub>i\<^sub>j exp (ll_fg\<^sub>i\<^sub>j[k] - logaddexp ll_fg\<^sub>i\<^sub>j[k] ll_bg\<^sub>i\<^sub>j[k])\<close>. The cell resets both globals
  before it accumulates, so running it again on what it left behind gives the same result.
\<close>

theorem post_prob_is_mean:
  assumes "wf_sampler d S" and "chain_shape S = (W, T, D)" and "0 < W" "0 < T"
  shows "\<exists>v. post_prob d S old = Inr (real (T * W), v) \<and> length v = length (x d) \<and>
    (\<forall>k < length (x d). v ! k =
       (1 / real (T * W)) *
       (\<Sum>i < T. \<Sum>j < W.
          exp (fst (blobs S ! i ! j) ! k -
               logaddexp (fst (blobs S ! i ! j) ! k) (snd (blobs S ! i ! j) ! k)))) \<and>
    post_prob d S (real (T * W), v) = Inr (real (T * W), v)"
proof -
  have "post_prob d S old' =
    Inr (real (T * W),
         map (\<lambda>k. (\<Sum>i < T. \<Sum>j < W. membership_term (blobs S ! i ! j) k) / real (T * W))
           [0..<length (x d)])" for old'
    using assms by (rule post_prob_run)
  then show ?thesis
    by (simp add: membership_term_def)
qed

theorem post_prob_is_mean_witness:
  "wf_sampler example_data example_sampler \<and> chain_shape example_sampler = (2, 1, 5) \<and>
   (0 :: nat) < 2 \<and> (0 :: nat) < 1 \<and>
   post_prob example_data example_sampler (0, []) = Inr (2, [5 / 8, 1 / 2]) \<and>
   post_prob example_data example_sampler (2, [5 / 8, 1 / 2]) = Inr (2, [5 / 8, 1 / 2])"
proof -
  from post_prob_is_mean [OF wf_example_sampler example_sampler_simps(1), of "(0, [])"]
  obtain v where run: "post_prob example_data example_sampler (0, []) = Inr (2, v)"
    and len: "length v = 2"
    and nth: "\<And>k. k < 2 \<Longrightarrow> v ! k =
       (1 / real (1 * 2)) *
       (\<Sum>i < 1. \<Sum>j < 2.
          exp (fst (blobs example_sampler ! i ! j) ! k -
               logaddexp (fst (blobs example_sampler ! i ! j) ! k)
                 (snd (blobs example_sampler ! i ! j) ! k)))"
    and again: "post_prob example_data example_sampler (2, v) = Inr (2, v)"
    by (auto simp: example_data_simps)
  have "v ! 0 = 5 / 8"
    using nth [of 0]
    by (simp add: sum_lessThan_2 example_sampler_simps logaddexp_example exp_diff exp_minus)
  moreover have "v ! 1 = 1 / 2"
    using nth [of 1]
    by (simp add: sum_lessThan_2 example_sampler_simps logaddexp_example exp_diff exp_minus)
  ultimately have "v = [5 / 8, 1 / 2]"
    using len by (intro nth_equalityI) (auto simp: less_Suc_eq numeral_2_eq_2)
  with run again wf_example_sampler show ?thesis
    by (simp add: example_sampler_simps)
qed

text \<open>
  C6. Under the same conditions on what the sampler stored, for any number of
  observations and at least one sample, the summarizer returns an array with one entry
  per observation, each between 0 and 1.
\<close>

theorem post_prob_in_unit_interval:
  assumes "wf_sampler d S" and "chain_shape S = (W, T, D)" and "0 < W" "0 < T"
  shows "\<exists>n v. post_prob d S old = Inr (n, v) \<and> length v = length (x d) \<and>
    (\<forall>p \<in> set v. 0 \<le> p \<and> p \<le> 1)"
proof -
  let ?mean = "\<lambda>k. (\<Sum>i < T. \<Sum>j < W. membership_term (blobs S ! i ! j) k) / real (T * W)"
  have run: "post_prob d S old = Inr (real (T * W), map ?mean [0..<length (x d)])"
    using assms by (rule post_prob_run)
  have N: "0 < real (T * W)"
    using assms(3,4) by simp
  have bounds: "0 \<le> ?mean k \<and> ?mean k \<le> 1" for k
  proof -
    let ?total = "\<Sum>i < T. \<Sum>j < W. membership_term (blobs S ! i ! j) k"
    have "0 \<le> ?total"
      by (intro sum_nonneg) (simp add: membership_term_unit less_imp_le)
    moreover have "?total \<le> (\<Sum>i < T. \<Sum>j < W. 1)"
      by (intro sum_mono) (simp add: membership_term_unit less_imp_le)
    then have "?total \<le> real (T * W)"
      by simp
    ultimately show ?thesis
      using N by (simp add: divide_le_eq del: of_nat_mult)
  qed
  from run bounds show ?thesis
    by auto
qed

theorem post_prob_in_unit_interval_witness:
  "wf_sampler example_data example_sampler \<and> chain_shape example_sampler = (2, 1, 5) \<and>
   (0 :: nat) < 2 \<and> (0 :: nat) < 1 \<and>
   (\<exists>n v. post_prob example_data example_sampler (0, []) = Inr (n, v) \<and> length v = 2 \<and>
      0 \<le> v ! 0 \<and> v ! 0 \<le> 1 \<and> 0 \<le> v ! 1 \<and> v ! 1 \<le> 1)"
proof -
  from post_prob_in_unit_interval [OF wf_example_sampler example_sampler_simps(1), of "(0, [])"]
  obtain n v where run: "post_prob example_data example_sampler (0, []) = Inr (n, v)"
    and len: "length v = 2" and unit: "\<And>p. p \<in> set v \<Longrightarrow> 0 \<le> p \<and> p \<le> 1"
    by (auto simp: example_data_simps)
  from len have "v ! 0 \<in> set v" "v ! 1 \<in> set v"
    by simp_all
  with unit have "0 \<le> v ! 0 \<and> v ! 0 \<le> 1 \<and> 0 \<le> v ! 1 \<and> v ! 1 \<le> 1"
    by blast
  with run len wf_example_sampler show ?thesis
    by (auto simp: example_sampler_simps)
qed

end
